theory Spec2Isabelle
  imports Complex_Main
begin

section \<open>Data model\<close>

text \<open>
  The poker package keeps three kinds of data: the action dictionaries a hand record
  collects (\<^verbatim>\<open>HandRecord.add_action\<close>), the hand records themselves and the statistics
  snapshot of a player. Python floats are modelled as reals, Python ints as \<open>int\<close> or,
  for the loop counters that only ever count up from zero, as \<open>nat\<close>.
\<close>

subsection \<open>Actions\<close>

text \<open>
  An action is a dictionary with the keys \<^verbatim>\<open>player\<close>, \<^verbatim>\<open>action_type\<close>, \<^verbatim>\<open>amount\<close>,
  \<^verbatim>\<open>street\<close> and \<^verbatim>\<open>timestamp\<close>. The calculator reads it with \<^verbatim>\<open>action.get(key)\<close> and
  \<^verbatim>\<open>action.get(key, default)\<close>, so a key may be missing (the tests build actions without
  \<^verbatim>\<open>amount\<close> and \<^verbatim>\<open>timestamp\<close>): a field is \<open>None\<close> when its key is absent, and holds a
  value of the type \<^verbatim>\<open>add_action\<close> declares otherwise.
\<close>

record action =
  player :: "string option"
  action_type :: "string option"
  amount :: "real option"
  street :: "string option"
  action_timestamp :: "string option"

subsection \<open>Hand records\<close>

text \<open>
  \<^verbatim>\<open>HandRecord\<close> of \<^verbatim>\<open>hand_history.py\<close>. The type \<open>'t\<close> stands for \<^verbatim>\<open>datetime\<close>.
\<close>

record 't HandRecord =
  hand_id :: string
  session_id :: "string option"
  timestamp :: 't
  hero_cards :: "string list"
  board :: "string list"
  players :: "string list"
  hero_position :: "string option"
  small_blind :: real
  big_blind :: real
  actions :: "action list"
  result_bb :: real
  winner :: "string option"
  went_to_showdown :: bool
  ai_action :: "string option"
  ai_reasoning :: "string option"
  ai_confidence :: "real option"

text \<open>
  \<^verbatim>\<open>HandRecord(session_id=session_id)\<close>: every other field takes its default. The two
  default factories (a fresh uuid prefix, the current time) are inputs of the model.
\<close>

definition new_HandRecord :: "string \<Rightarrow> 't \<Rightarrow> string option \<Rightarrow> 't HandRecord" where
  "new_HandRecord fresh_id now sid =
     \<lparr> hand_id = fresh_id, session_id = sid, timestamp = now,
       hero_cards = [], board = [], players = [], hero_position = None,
       small_blind = 0, big_blind = 0, actions = [],
       result_bb = 0, winner = None, went_to_showdown = False,
       ai_action = None, ai_reasoning = None, ai_confidence = None \<rparr>"

subsection \<open>Player statistics and players\<close>

record PlayerStats =
  hands :: int
  vpip :: real
  pfr :: real
  three_bet :: real
  fold_to_3bet :: real
  af :: real
  wtsd :: real
  wssd :: real
  cbet :: real
  vpip_opportunities :: int
  vpip_count :: int
  pfr_opportunities :: int
  pfr_count :: int
  three_bet_opportunities :: int
  three_bet_count :: int
  fold_to_3bet_opportunities :: int
  fold_to_3bet_count :: int
  bets_raises :: int
  calls :: int
  showdown_opportunities :: int
  showdown_count :: int
  showdown_wins :: int
  cbet_opportunities :: int
  cbet_count :: int
  stats_by_position :: "(string \<times> (string \<times> real) list) list"

text \<open>\<^verbatim>\<open>PlayerStats()\<close>: the dataclass defaults.\<close>

definition default_PlayerStats :: PlayerStats where
  "default_PlayerStats =
     \<lparr> hands = 0, vpip = 0, pfr = 0, three_bet = 0, fold_to_3bet = 0, af = 0,
       wtsd = 0, wssd = 0, cbet = 0,
       vpip_opportunities = 0, vpip_count = 0, pfr_opportunities = 0, pfr_count = 0,
       three_bet_opportunities = 0, three_bet_count = 0,
       fold_to_3bet_opportunities = 0, fold_to_3bet_count = 0,
       bets_raises = 0, calls = 0,
       showdown_opportunities = 0, showdown_count = 0, showdown_wins = 0,
       cbet_opportunities = 0, cbet_count = 0,
       stats_by_position = [] \<rparr>"

record 't Player =
  name :: string
  seat :: int
  stack :: real
  is_hero :: bool
  position :: "string option"
  stats :: PlayerStats
  last_updated :: "'t option"
  player_notes :: string

definition is_tight :: "'t Player \<Rightarrow> bool" where
  "is_tight self = (vpip (stats self) < 20 \<and> hands (stats self) \<ge> 20)"

definition is_loose :: "'t Player \<Rightarrow> bool" where
  "is_loose self = (vpip (stats self) > 35 \<and> hands (stats self) \<ge> 20)"

definition is_aggressive :: "'t Player \<Rightarrow> bool" where
  "is_aggressive self = (af (stats self) > 2.5 \<and> hands (stats self) \<ge> 20)"

definition is_passive :: "'t Player \<Rightarrow> bool" where
  "is_passive self = (af (stats self) < 1.5 \<and> hands (stats self) \<ge> 20)"

definition get_player_type :: "'t Player \<Rightarrow> string" where
  "get_player_type self =
     (if hands (stats self) < 20 then ''Unknown''
      else let tight = vpip (stats self) < 25;
               aggressive = af (stats self) > 2.0
           in if tight \<and> aggressive then ''TAG (Tight Aggressive)''
              else if tight \<and> \<not> aggressive then ''TP (Tight Passive)''
              else if \<not> tight \<and> aggressive then ''LAG (Loose Aggressive)''
              else ''LP (Loose Passive)'')"

section \<open>The hand history store\<close>

text \<open>
  \<^verbatim>\<open>HandHistory\<close>: the closed hands \<^verbatim>\<open>_hands\<close>, the capacity \<^verbatim>\<open>_max_hands\<close> and the open
  hand \<^verbatim>\<open>_current_hand\<close>. The methods mutate the store; the model returns the new store.
\<close>

record 't HandHistory =
  hh_hands :: "'t HandRecord list"
  hh_max_hands :: int
  hh_current_hand :: "'t HandRecord option"

definition init_HandHistory :: "int \<Rightarrow> 't HandHistory" where
  "init_HandHistory max_hands =
     \<lparr> hh_hands = [], hh_max_hands = max_hands, hh_current_hand = None \<rparr>"

text \<open>
  Python's \<^verbatim>\<open>xs[i:]\<close>: a negative start counts from the end and is clamped at the
  beginning of the list, a start beyond the end gives the empty list.
\<close>

definition py_slice_from :: "int \<Rightarrow> 'a list \<Rightarrow> 'a list" where
  "py_slice_from i xs =
     (if i < 0 then drop (nat (max 0 (int (length xs) + i))) xs else drop (nat i) xs)"

definition start_new_hand ::
  "string \<Rightarrow> 't \<Rightarrow> string option \<Rightarrow> 't HandHistory \<Rightarrow> 't HandHistory" where
  "start_new_hand fresh_id now sid self =
     self\<lparr>hh_current_hand := Some (new_HandRecord fresh_id now sid)\<rparr>"

definition end_hand :: "real \<Rightarrow> string option \<Rightarrow> 't HandHistory \<Rightarrow> 't HandHistory" where
  "end_hand res win self =
     (case hh_current_hand self of
        None \<Rightarrow> self
      | Some cur \<Rightarrow>
          let appended = hh_hands self @ [cur\<lparr>result_bb := res, winner := win\<rparr>];
              trimmed = (if int (length appended) > hh_max_hands self
                         then py_slice_from (- hh_max_hands self) appended
                         else appended)
          in self\<lparr>hh_hands := trimmed, hh_current_hand := None\<rparr>)"

section \<open>The statistics calculator\<close>

text \<open>
  \<^verbatim>\<open>StatsCalculator\<close> of \<^verbatim>\<open>stats_calculator.py\<close>. Each \<^verbatim>\<open>_calculate_*\<close> method is a loop
  over the hands with an inner loop over the actions of a hand; the inner loops are the
  \<open>*_scan\<close> functions, the outer loops the \<open>*_loop\<close> functions, and a \<^verbatim>\<open>break\<close> is an
  equation that returns without a recursive call. The counters are threaded through.
\<close>

subsection \<open>Reading an action\<close>

text \<open>
  \<^verbatim>\<open>str.lower()\<close> on the bytes of a string: the letters A to Z are mapped to a to z.
  The calculator only compares the result with the words \<^verbatim>\<open>call\<close>, \<^verbatim>\<open>bet\<close>, \<^verbatim>\<open>raise\<close>
  and \<^verbatim>\<open>fold\<close>, and no letter outside ASCII is lowered by Python to a letter of these.
\<close>

definition lower_char :: "char \<Rightarrow> char" where
  "lower_char c =
     (case map_of (zip ''ABCDEFGHIJKLMNOPQRSTUVWXYZ'' ''abcdefghijklmnopqrstuvwxyz'') c of
        None \<Rightarrow> c
      | Some l \<Rightarrow> l)"

definition lower :: "string \<Rightarrow> string" where
  "lower s = map lower_char s"

text \<open>\<^verbatim>\<open>action.get("action_type", "").lower()\<close>\<close>

definition action_type_lower :: "action \<Rightarrow> string" where
  "action_type_lower a = lower (case action_type a of None \<Rightarrow> [] | Some t \<Rightarrow> t)"

text \<open>\<^verbatim>\<open>action.get("street", "preflop")\<close>, as the VPIP and PFR scans read the street.\<close>

definition street_or_preflop :: "action \<Rightarrow> string" where
  "street_or_preflop a = (case street a of None \<Rightarrow> ''preflop'' | Some s \<Rightarrow> s)"

subsection \<open>VPIP and PFR\<close>

fun vpip_scan :: "string \<Rightarrow> action list \<Rightarrow> nat \<Rightarrow> nat" where
  "vpip_scan p [] voluntarily_put_in = voluntarily_put_in"
| "vpip_scan p (a # rest) voluntarily_put_in =
     (if player a = Some p then
        (if street_or_preflop a = ''preflop''
            \<and> action_type_lower a \<in> set [''call'', ''raise'', ''bet'']
         then voluntarily_put_in + 1
         else vpip_scan p rest voluntarily_put_in)
      else vpip_scan p rest voluntarily_put_in)"

fun vpip_loop :: "string \<Rightarrow> 't HandRecord list \<Rightarrow> nat \<times> nat \<Rightarrow> nat \<times> nat" where
  "vpip_loop p [] (opportunities, voluntarily_put_in) = (opportunities, voluntarily_put_in)"
| "vpip_loop p (h # hs) (opportunities, voluntarily_put_in) =
     vpip_loop p hs (opportunities + 1, vpip_scan p (actions h) voluntarily_put_in)"

definition calculate_vpip :: "string \<Rightarrow> 't HandRecord list \<Rightarrow> real" where
  "calculate_vpip p hs =
     (case vpip_loop p hs (0, 0) of (opportunities, voluntarily_put_in) \<Rightarrow>
        if opportunities = 0 then 0
        else (real voluntarily_put_in / real opportunities) * 100)"

fun pfr_scan :: "string \<Rightarrow> action list \<Rightarrow> nat \<Rightarrow> nat" where
  "pfr_scan p [] pfr_cnt = pfr_cnt"
| "pfr_scan p (a # rest) pfr_cnt =
     (if player a = Some p then
        (if street_or_preflop a = ''preflop'' \<and> action_type_lower a = ''raise''
         then pfr_cnt + 1
         else pfr_scan p rest pfr_cnt)
      else pfr_scan p rest pfr_cnt)"

fun pfr_loop :: "string \<Rightarrow> 't HandRecord list \<Rightarrow> nat \<times> nat \<Rightarrow> nat \<times> nat" where
  "pfr_loop p [] (opportunities, pfr_cnt) = (opportunities, pfr_cnt)"
| "pfr_loop p (h # hs) (opportunities, pfr_cnt) =
     pfr_loop p hs (opportunities + 1, pfr_scan p (actions h) pfr_cnt)"

definition calculate_pfr :: "string \<Rightarrow> 't HandRecord list \<Rightarrow> real" where
  "calculate_pfr p hs =
     (case pfr_loop p hs (0, 0) of (opportunities, pfr_cnt) \<Rightarrow>
        if opportunities = 0 then 0
        else (real pfr_cnt / real opportunities) * 100)"

subsection \<open>3-bet and fold to 3-bet\<close>

text \<open>
  The scan of one hand carries \<^verbatim>\<open>raise_seen\<close> and \<^verbatim>\<open>player_acted\<close>. It stops at the first
  action whose street is not \<^verbatim>\<open>preflop\<close> (read without a default, so a missing street
  stops it too). An action that is a raise by somebody else sets \<^verbatim>\<open>raise_seen\<close> and is
  done, since the second \<^verbatim>\<open>if\<close> of the loop body is about the player's own actions.
\<close>

fun three_bet_scan ::
  "string \<Rightarrow> action list \<Rightarrow> bool \<Rightarrow> bool \<Rightarrow> nat \<times> nat \<Rightarrow> nat \<times> nat" where
  "three_bet_scan p [] raise_seen player_acted (opportunities, cnt) = (opportunities, cnt)"
| "three_bet_scan p (a # rest) raise_seen player_acted (opportunities, cnt) =
     (if street a \<noteq> Some ''preflop'' then (opportunities, cnt)
      else if action_type_lower a = ''raise'' \<and> player a \<noteq> Some p then
        three_bet_scan p rest True player_acted (opportunities, cnt)
      else if action_type_lower a = ''raise'' \<and> raise_seen \<and> \<not> player_acted then
        (opportunities + 1, cnt + 1)
      else if player a = Some p then
        three_bet_scan p rest raise_seen True
          (if raise_seen \<and> \<not> player_acted then opportunities + 1 else opportunities, cnt)
      else three_bet_scan p rest raise_seen player_acted (opportunities, cnt))"

fun three_bet_loop :: "string \<Rightarrow> 't HandRecord list \<Rightarrow> nat \<times> nat \<Rightarrow> nat \<times> nat" where
  "three_bet_loop p [] oc = oc"
| "three_bet_loop p (h # hs) oc =
     three_bet_loop p hs (three_bet_scan p (actions h) False False oc)"

definition calculate_3bet :: "string \<Rightarrow> 't HandRecord list \<Rightarrow> real" where
  "calculate_3bet p hs =
     (case three_bet_loop p hs (0, 0) of (opportunities, three_bet_cnt) \<Rightarrow>
        if opportunities = 0 then 0
        else (real three_bet_cnt / real opportunities) * 100)"

text \<open>The scan of one hand carries \<^verbatim>\<open>player_raised\<close> and \<^verbatim>\<open>faced_3bet\<close>.\<close>

fun fold_to_3bet_scan ::
  "string \<Rightarrow> action list \<Rightarrow> bool \<Rightarrow> bool \<Rightarrow> nat \<times> nat \<Rightarrow> nat \<times> nat" where
  "fold_to_3bet_scan p [] player_raised faced_3bet (opportunities, fold_cnt) =
     (opportunities, fold_cnt)"
| "fold_to_3bet_scan p (a # rest) player_raised faced_3bet (opportunities, fold_cnt) =
     (if street a \<noteq> Some ''preflop'' then (opportunities, fold_cnt)
      else if player a = Some p then
        (if action_type_lower a = ''raise'' \<and> \<not> player_raised then
           fold_to_3bet_scan p rest True faced_3bet (opportunities, fold_cnt)
         else if faced_3bet then
           (opportunities + 1,
            if action_type_lower a = ''fold'' then fold_cnt + 1 else fold_cnt)
         else fold_to_3bet_scan p rest player_raised faced_3bet (opportunities, fold_cnt))
      else if player_raised \<and> action_type_lower a = ''raise'' then
        fold_to_3bet_scan p rest player_raised True (opportunities, fold_cnt)
      else fold_to_3bet_scan p rest player_raised faced_3bet (opportunities, fold_cnt))"

fun fold_to_3bet_loop :: "string \<Rightarrow> 't HandRecord list \<Rightarrow> nat \<times> nat \<Rightarrow> nat \<times> nat" where
  "fold_to_3bet_loop p [] oc = oc"
| "fold_to_3bet_loop p (h # hs) oc =
     fold_to_3bet_loop p hs (fold_to_3bet_scan p (actions h) False False oc)"

definition calculate_fold_to_3bet :: "string \<Rightarrow> 't HandRecord list \<Rightarrow> real" where
  "calculate_fold_to_3bet p hs =
     (case fold_to_3bet_loop p hs (0, 0) of (opportunities, fold_cnt) \<Rightarrow>
        if opportunities = 0 then 0
        else (real fold_cnt / real opportunities) * 100)"

subsection \<open>Aggression factor\<close>

fun af_scan :: "string \<Rightarrow> action list \<Rightarrow> nat \<times> nat \<Rightarrow> nat \<times> nat" where
  "af_scan p [] (bets_raises_cnt, calls_cnt) = (bets_raises_cnt, calls_cnt)"
| "af_scan p (a # rest) (bets_raises_cnt, calls_cnt) =
     (if player a = Some p then
        (if action_type_lower a \<in> set [''bet'', ''raise''] then
           af_scan p rest (bets_raises_cnt + 1, calls_cnt)
         else if action_type_lower a = ''call'' then
           af_scan p rest (bets_raises_cnt, calls_cnt + 1)
         else af_scan p rest (bets_raises_cnt, calls_cnt))
      else af_scan p rest (bets_raises_cnt, calls_cnt))"

fun af_loop :: "string \<Rightarrow> 't HandRecord list \<Rightarrow> nat \<times> nat \<Rightarrow> nat \<times> nat" where
  "af_loop p [] bc = bc"
| "af_loop p (h # hs) bc = af_loop p hs (af_scan p (actions h) bc)"

text \<open>
  With no call the method returns the integer \<^verbatim>\<open>bets_raises\<close> itself when it is positive
  and \<^verbatim>\<open>0.0\<close> otherwise; both are the real number of that value here.
\<close>

definition calculate_af :: "string \<Rightarrow> 't HandRecord list \<Rightarrow> real" where
  "calculate_af p hs =
     (case af_loop p hs (0, 0) of (bets_raises_cnt, calls_cnt) \<Rightarrow>
        if calls_cnt = 0 then (if bets_raises_cnt > 0 then real bets_raises_cnt else 0)
        else real bets_raises_cnt / real calls_cnt)"

subsection \<open>Showdown statistics\<close>

fun player_saw_flop :: "string \<Rightarrow> action list \<Rightarrow> bool" where
  "player_saw_flop p [] = False"
| "player_saw_flop p (a # rest) =
     (if player a = Some p \<and> street a = Some ''flop'' then True
      else player_saw_flop p rest)"

fun wtsd_loop :: "string \<Rightarrow> 't HandRecord list \<Rightarrow> nat \<times> nat \<Rightarrow> nat \<times> nat" where
  "wtsd_loop p [] (saw_flop, showdown_cnt) = (saw_flop, showdown_cnt)"
| "wtsd_loop p (h # hs) (saw_flop, showdown_cnt) =
     (if player_saw_flop p (actions h) then
        wtsd_loop p hs
          (saw_flop + 1,
           if went_to_showdown h \<and> p \<in> set (players h) then showdown_cnt + 1
           else showdown_cnt)
      else wtsd_loop p hs (saw_flop, showdown_cnt))"

definition calculate_wtsd :: "string \<Rightarrow> 't HandRecord list \<Rightarrow> real" where
  "calculate_wtsd p hs =
     (case wtsd_loop p hs (0, 0) of (saw_flop, showdown_cnt) \<Rightarrow>
        if saw_flop = 0 then 0 else (real showdown_cnt / real saw_flop) * 100)"

fun wssd_loop :: "string \<Rightarrow> 't HandRecord list \<Rightarrow> nat \<times> nat \<Rightarrow> nat \<times> nat" where
  "wssd_loop p [] (showdowns, wins) = (showdowns, wins)"
| "wssd_loop p (h # hs) (showdowns, wins) =
     (if went_to_showdown h \<and> p \<in> set (players h) then
        wssd_loop p hs (showdowns + 1, if winner h = Some p then wins + 1 else wins)
      else wssd_loop p hs (showdowns, wins))"

definition calculate_wssd :: "string \<Rightarrow> 't HandRecord list \<Rightarrow> real" where
  "calculate_wssd p hs =
     (case wssd_loop p hs (0, 0) of (showdowns, wins) \<Rightarrow>
        if showdowns = 0 then 0 else (real wins / real showdowns) * 100)"

subsection \<open>Continuation bet\<close>

text \<open>
  The first inner loop sets \<^verbatim>\<open>was_aggressor\<close> and stops at the first action whose street
  is not \<^verbatim>\<open>preflop\<close>; the second looks through all the actions of the hand for the
  player's first action on the flop.
\<close>

fun was_aggressor_scan :: "string \<Rightarrow> action list \<Rightarrow> bool \<Rightarrow> bool" where
  "was_aggressor_scan p [] was_aggressor = was_aggressor"
| "was_aggressor_scan p (a # rest) was_aggressor =
     (if street a \<noteq> Some ''preflop'' then was_aggressor
      else if player a = Some p \<and> action_type_lower a = ''raise'' then
        was_aggressor_scan p rest True
      else was_aggressor_scan p rest was_aggressor)"

fun cbet_flop_scan :: "string \<Rightarrow> action list \<Rightarrow> nat \<times> nat \<Rightarrow> nat \<times> nat" where
  "cbet_flop_scan p [] (opportunities, cbet_cnt) = (opportunities, cbet_cnt)"
| "cbet_flop_scan p (a # rest) (opportunities, cbet_cnt) =
     (if street a = Some ''flop'' \<and> player a = Some p then
        (opportunities + 1,
         if action_type_lower a \<in> set [''bet'', ''raise''] then cbet_cnt + 1 else cbet_cnt)
      else cbet_flop_scan p rest (opportunities, cbet_cnt))"

fun cbet_loop :: "string \<Rightarrow> 't HandRecord list \<Rightarrow> nat \<times> nat \<Rightarrow> nat \<times> nat" where
  "cbet_loop p [] oc = oc"
| "cbet_loop p (h # hs) oc =
     (if \<not> was_aggressor_scan p (actions h) False then cbet_loop p hs oc
      else cbet_loop p hs (cbet_flop_scan p (actions h) oc))"

definition calculate_cbet :: "string \<Rightarrow> 't HandRecord list \<Rightarrow> real" where
  "calculate_cbet p hs =
     (case cbet_loop p hs (0, 0) of (opportunities, cbet_cnt) \<Rightarrow>
        if opportunities = 0 then 0
        else (real cbet_cnt / real opportunities) * 100)"

subsection \<open>All statistics of a player\<close>

definition calculate_stats :: "string \<Rightarrow> 't HandRecord list \<Rightarrow> PlayerStats" where
  "calculate_stats player_name hs =
     (if hs = [] then default_PlayerStats
      else
        let player_hands = filter (\<lambda>h. player_name \<in> set (players h)) hs
        in if int (length player_hands) = 0
           then default_PlayerStats\<lparr>hands := int (length player_hands)\<rparr>
           else default_PlayerStats
                  \<lparr> hands := int (length player_hands),
                    vpip := calculate_vpip player_name player_hands,
                    pfr := calculate_pfr player_name player_hands,
                    three_bet := calculate_3bet player_name player_hands,
                    fold_to_3bet := calculate_fold_to_3bet player_name player_hands,
                    af := calculate_af player_name player_hands,
                    wtsd := calculate_wtsd player_name player_hands,
                    wssd := calculate_wssd player_name player_hands,
                    cbet := calculate_cbet player_name player_hands \<rparr>)"

section \<open>The notions the statistics are stated in\<close>

text \<open>
  The definitions of this section are not translations of code: they say, with list
  functions, what a scan of the calculator is proved to count.
\<close>

text \<open>The hands \<^verbatim>\<open>calculate_stats\<close> keeps: those that list the player among their players.\<close>

definition involving :: "string \<Rightarrow> 't HandRecord list \<Rightarrow> 't HandRecord list" where
  "involving p hs = filter (\<lambda>h. p \<in> set (players h)) hs"

text \<open>Occurrences over opportunities as a percentage, zero when there is no opportunity.\<close>

definition percent :: "nat \<Rightarrow> nat \<Rightarrow> real" where
  "percent occurrences opportunities =
     (if opportunities = 0 then 0 else 100 * real occurrences / real opportunities)"

text \<open>
  The preflop actions of a hand as the 3-bet, fold-to-3-bet and continuation-bet scans
  see them: the leading actions whose street is \<^verbatim>\<open>preflop\<close>.
\<close>

definition preflop_run :: "action list \<Rightarrow> action list" where
  "preflop_run acts = takeWhile (\<lambda>a. street a = Some ''preflop'') acts"

definition is_raise :: "action \<Rightarrow> bool" where
  "is_raise a = (action_type_lower a = ''raise'')"

definition is_bet_or_raise :: "action \<Rightarrow> bool" where
  "is_bet_or_raise a = (action_type_lower a \<in> {''bet'', ''raise''})"

definition is_call :: "action \<Rightarrow> bool" where
  "is_call a = (action_type_lower a = ''call'')"

definition first_action_of :: "string \<Rightarrow> action list \<Rightarrow> action option" where
  "first_action_of p acts = find (\<lambda>a. player a = Some p) acts"

definition before_first_action_of :: "string \<Rightarrow> action list \<Rightarrow> action list" where
  "before_first_action_of p acts = takeWhile (\<lambda>a. player a \<noteq> Some p) acts"

text \<open>What follows the player's first raise, and what follows the first raise of another player.\<close>

definition after_own_raise :: "string \<Rightarrow> action list \<Rightarrow> action list" where
  "after_own_raise p acts =
     drop 1 (dropWhile (\<lambda>a. \<not> (player a = Some p \<and> is_raise a)) acts)"

definition after_other_raise :: "string \<Rightarrow> action list \<Rightarrow> action list" where
  "after_other_raise p acts =
     drop 1 (dropWhile (\<lambda>a. \<not> (player a \<noteq> Some p \<and> is_raise a)) acts)"

subsection \<open>VPIP and PFR\<close>

definition voluntary_preflop_action :: "string \<Rightarrow> action \<Rightarrow> bool" where
  "voluntary_preflop_action p a =
     (player a = Some p \<and> street_or_preflop a = ''preflop''
      \<and> action_type_lower a \<in> {''call'', ''bet'', ''raise''})"

definition vpip_occurrence :: "string \<Rightarrow> 't HandRecord \<Rightarrow> bool" where
  "vpip_occurrence p h = (\<exists>a \<in> set (actions h). voluntary_preflop_action p a)"

definition preflop_raise_action :: "string \<Rightarrow> action \<Rightarrow> bool" where
  "preflop_raise_action p a =
     (player a = Some p \<and> street_or_preflop a = ''preflop'' \<and> is_raise a)"

definition pfr_occurrence :: "string \<Rightarrow> 't HandRecord \<Rightarrow> bool" where
  "pfr_occurrence p h = (\<exists>a \<in> set (actions h). preflop_raise_action p a)"

text \<open>
  VPIP in the words of the specification: the occurrence is decided by the player's
  first preflop action alone.
\<close>

definition claimed_vpip_occurrence :: "string \<Rightarrow> 't HandRecord \<Rightarrow> bool" where
  "claimed_vpip_occurrence p h =
     (case find (\<lambda>a. player a = Some p \<and> street_or_preflop a = ''preflop'') (actions h) of
        None \<Rightarrow> False
      | Some a \<Rightarrow> action_type_lower a \<in> {''call'', ''bet'', ''raise''})"

definition claimed_vpip :: "string \<Rightarrow> 't HandRecord list \<Rightarrow> real" where
  "claimed_vpip p hs =
     percent (length (filter (claimed_vpip_occurrence p) (involving p hs)))
       (length (involving p hs))"

subsection \<open>3-bet\<close>

text \<open>
  What the scan counts: the player has a first preflop action, and somebody else raised
  before it; the occurrence is that this first action is a raise.
\<close>

definition three_bet_opportunity :: "string \<Rightarrow> 't HandRecord \<Rightarrow> bool" where
  "three_bet_opportunity p h =
     (first_action_of p (preflop_run (actions h)) \<noteq> None
      \<and> (\<exists>a \<in> set (before_first_action_of p (preflop_run (actions h))). is_raise a))"

definition three_bet_occurrence :: "string \<Rightarrow> 't HandRecord \<Rightarrow> bool" where
  "three_bet_occurrence p h =
     (three_bet_opportunity p h
      \<and> (case first_action_of p (preflop_run (actions h)) of
            None \<Rightarrow> False
          | Some a \<Rightarrow> is_raise a))"

text \<open>
  3-bet in the words of the specification: somebody else raises, and the action that
  counts is the player's first action after that raise, in every hand of the list.
\<close>

definition claimed_3bet_action :: "string \<Rightarrow> 't HandRecord \<Rightarrow> action option" where
  "claimed_3bet_action p h =
     first_action_of p (after_other_raise p (preflop_run (actions h)))"

definition claimed_3bet :: "string \<Rightarrow> 't HandRecord list \<Rightarrow> real" where
  "claimed_3bet p hs =
     percent
       (length (filter (\<lambda>h. case claimed_3bet_action p h of
                               None \<Rightarrow> False | Some a \<Rightarrow> is_raise a) hs))
       (length (filter (\<lambda>h. claimed_3bet_action p h \<noteq> None) hs))"

subsection \<open>Fold to 3-bet\<close>

text \<open>
  What the scan counts: the player raises, somebody else raises after that, and the
  player acts again; this next action of the player is the facing action.
\<close>

definition facing_action :: "string \<Rightarrow> 't HandRecord \<Rightarrow> action option" where
  "facing_action p h =
     first_action_of p (after_other_raise p (after_own_raise p (preflop_run (actions h))))"

definition fold_to_3bet_opportunity :: "string \<Rightarrow> 't HandRecord \<Rightarrow> bool" where
  "fold_to_3bet_opportunity p h = (facing_action p h \<noteq> None)"

definition fold_to_3bet_occurrence :: "string \<Rightarrow> 't HandRecord \<Rightarrow> bool" where
  "fold_to_3bet_occurrence p h =
     (case facing_action p h of None \<Rightarrow> False | Some a \<Rightarrow> action_type_lower a = ''fold'')"

text \<open>
  Fold to 3-bet in the words of the specification: the first preflop raise of the hand is
  the player's, and somebody else raises before the player's next action, which is the
  facing action.
\<close>

definition claimed_facing_action :: "string \<Rightarrow> 't HandRecord \<Rightarrow> action option" where
  "claimed_facing_action p h =
     (case dropWhile (\<lambda>a. \<not> is_raise a) (preflop_run (actions h)) of
        [] \<Rightarrow> None
      | r # rest \<Rightarrow>
          if player r = Some p \<and> (\<exists>a \<in> set (before_first_action_of p rest). is_raise a)
          then first_action_of p rest
          else None)"

definition claimed_fold_to_3bet :: "string \<Rightarrow> 't HandRecord list \<Rightarrow> real" where
  "claimed_fold_to_3bet p hs =
     percent
       (length (filter (\<lambda>h. case claimed_facing_action p h of
                               None \<Rightarrow> False
                             | Some a \<Rightarrow> action_type_lower a = ''fold'') hs))
       (length (filter (\<lambda>h. claimed_facing_action p h \<noteq> None) hs))"

subsection \<open>Continuation bet\<close>












subsection \<open>Aggression factor\<close>

text \<open>The number of actions of a kind that the player has in a list of hands.\<close>

definition count_actions :: "(action \<Rightarrow> bool) \<Rightarrow> string \<Rightarrow> 't HandRecord list \<Rightarrow> nat" where
  "count_actions kind p hs =
     sum_list (map (\<lambda>h. length (filter (\<lambda>a. player a = Some p \<and> kind a) (actions h))) hs)"

definition aggression_ratio :: "nat \<Rightarrow> nat \<Rightarrow> real" where
  "aggression_ratio bets_raises_cnt calls_cnt =
     (if calls_cnt = 0 then real bets_raises_cnt
      else real bets_raises_cnt / real calls_cnt)"

text \<open>
  The aggression factor in the words of the specification: the counts are taken over all
  the hands of the list.
\<close>

definition claimed_af :: "string \<Rightarrow> 't HandRecord list \<Rightarrow> real" where
  "claimed_af p hs =
     aggression_ratio (count_actions is_bet_or_raise p hs) (count_actions is_call p hs)"

subsection \<open>Sequences of operations on the store\<close>

text \<open>
  The two mutating methods as operations, each with the inputs of its call, and a run of
  a list of operations from a given store.
\<close>

datatype 't store_op =
  StartNewHand string 't "string option"
| EndHand real "string option"

fun apply_op :: "'t store_op \<Rightarrow> 't HandHistory \<Rightarrow> 't HandHistory" where
  "apply_op (StartNewHand fresh_id now sid) self = start_new_hand fresh_id now sid self"
| "apply_op (EndHand res win) self = end_hand res win self"

fun run_ops :: "'t store_op list \<Rightarrow> 't HandHistory \<Rightarrow> 't HandHistory" where
  "run_ops [] self = self"
| "run_ops (operation # rest) self = run_ops rest (apply_op operation self)"

text \<open>
  One \<^verbatim>\<open>start_new_hand\<close>/\<^verbatim>\<open>end_hand\<close> pair is given by the inputs of the two calls; it
  finalizes the hand record that \<^verbatim>\<open>start_new_hand\<close> made, with the result and the winner
  that \<^verbatim>\<open>end_hand\<close> was given.
\<close>

type_synonym 't hand_pair = "(string \<times> 't \<times> string option) \<times> (real \<times> string option)"

fun pair_ops :: "'t hand_pair \<Rightarrow> 't store_op list" where
  "pair_ops ((fresh_id, now, sid), (res, win)) =
     [StartNewHand fresh_id now sid, EndHand res win]"

fun finalized :: "'t hand_pair \<Rightarrow> 't HandRecord" where
  "finalized ((fresh_id, now, sid), (res, win)) =
     (new_HandRecord fresh_id now sid)\<lparr>result_bb := res, winner := win\<rparr>"

definition ops_of_pairs :: "'t hand_pair list \<Rightarrow> 't store_op list" where
  "ops_of_pairs ps = concat (map pair_ops ps)"

section \<open>Plain mappings\<close>

text \<open>
  \<^verbatim>\<open>to_dict\<close> and \<^verbatim>\<open>from_dict\<close> exchange dictionaries with string keys. The values that
  occur are \<^verbatim>\<open>None\<close>, booleans, numbers, strings, lists of strings, lists of actions and
  the per-position dictionary of the statistics. A dictionary is the list of its items
  in insertion order.
\<close>

datatype pyval =
  PNone
| PBool bool
| PInt int
| PFloat real
| PStr string
| PStrList "string list"
| PActions "action list"
| PPositions "(string \<times> (string \<times> real) list) list"

type_synonym pydict = "(string \<times> pyval) list"

text \<open>
  The records are typed as the dataclass fields are annotated. \<open>ValueError\<close> is what
  \<^verbatim>\<open>datetime.fromisoformat\<close> raises on a string it cannot read. \<open>Unmodelled\<close> is no
  exception of the source: it marks the inputs about which the typed records say nothing.
  These are a value of another type than the annotated one under a field's key (Python
  stores it as it is), and, for \<^verbatim>\<open>PlayerStats.from_dict\<close>, a key that names an attribute
  of the object other than a field (there \<^verbatim>\<open>setattr\<close> raises, as for \<^verbatim>\<open>__class__\<close>, or
  changes the object beyond single fields, as for \<^verbatim>\<open>__dict__\<close>).
\<close>

datatype error = ValueError | Unmodelled

fun as_int :: "pyval \<Rightarrow> error + int" where
  "as_int (PInt i) = Inr i"
| "as_int _ = Inl Unmodelled"

fun as_float :: "pyval \<Rightarrow> error + real" where
  "as_float (PFloat r) = Inr r"
| "as_float (PInt i) = Inr (real_of_int i)"
| "as_float _ = Inl Unmodelled"

fun as_bool :: "pyval \<Rightarrow> error + bool" where
  "as_bool (PBool b) = Inr b"
| "as_bool _ = Inl Unmodelled"

fun as_str :: "pyval \<Rightarrow> error + string" where
  "as_str (PStr s) = Inr s"
| "as_str _ = Inl Unmodelled"

fun as_opt_str :: "pyval \<Rightarrow> error + string option" where
  "as_opt_str PNone = Inr None"
| "as_opt_str (PStr s) = Inr (Some s)"
| "as_opt_str _ = Inl Unmodelled"

fun as_opt_float :: "pyval \<Rightarrow> error + real option" where
  "as_opt_float PNone = Inr None"
| "as_opt_float (PFloat r) = Inr (Some r)"
| "as_opt_float (PInt i) = Inr (Some (real_of_int i))"
| "as_opt_float _ = Inl Unmodelled"

fun as_str_list :: "pyval \<Rightarrow> error + string list" where
  "as_str_list (PStrList xs) = Inr xs"
| "as_str_list _ = Inl Unmodelled"

fun as_actions :: "pyval \<Rightarrow> error + action list" where
  "as_actions (PActions xs) = Inr xs"
| "as_actions _ = Inl Unmodelled"

fun as_positions :: "pyval \<Rightarrow> error + (string \<times> (string \<times> real) list) list" where
  "as_positions (PPositions xs) = Inr xs"
| "as_positions _ = Inl Unmodelled"

fun of_opt_str :: "string option \<Rightarrow> pyval" where
  "of_opt_str None = PNone"
| "of_opt_str (Some s) = PStr s"

fun of_opt_float :: "real option \<Rightarrow> pyval" where
  "of_opt_float None = PNone"
| "of_opt_float (Some r) = PFloat r"

text \<open>Continuing with the value of a step that did not fail.\<close>

fun and_then :: "error + 'a \<Rightarrow> ('a \<Rightarrow> error + 'b) \<Rightarrow> error + 'b" where
  "and_then (Inl e) f = Inl e"
| "and_then (Inr x) f = f x"

text \<open>\<^verbatim>\<open>data.get(key, default)\<close>, read at the type of the field.\<close>

definition get_or :: "pydict \<Rightarrow> string \<Rightarrow> (pyval \<Rightarrow> error + 'a) \<Rightarrow> 'a \<Rightarrow> error + 'a" where
  "get_or data key read dflt =
     (case map_of data key of None \<Rightarrow> Inr dflt | Some v \<Rightarrow> read v)"

subsection \<open>Player statistics\<close>

text \<open>\<^verbatim>\<open>PlayerStats.to_dict\<close> writes the sample size and the eight statistics.\<close>

definition PlayerStats_to_dict :: "PlayerStats \<Rightarrow> pydict" where
  "PlayerStats_to_dict self =
     [(''hands'', PInt (hands self)),
      (''vpip'', PFloat (vpip self)),
      (''pfr'', PFloat (pfr self)),
      (''three_bet'', PFloat (three_bet self)),
      (''fold_to_3bet'', PFloat (fold_to_3bet self)),
      (''af'', PFloat (af self)),
      (''wtsd'', PFloat (wtsd self)),
      (''wssd'', PFloat (wssd self)),
      (''cbet'', PFloat (cbet self))]"

text \<open>
  The attributes of a \<^verbatim>\<open>PlayerStats\<close> object that are not fields are its two methods
  and the special attributes, whose names begin and end with two underscores.
\<close>

definition is_dunder :: "string \<Rightarrow> bool" where
  "is_dunder key = (take 2 key = ''__'' \<and> take 2 (rev key) = ''__'')"

definition other_attribute :: "string \<Rightarrow> bool" where
  "other_attribute key = (key \<in> set [''to_dict'', ''from_dict''] \<or> is_dunder key)"

text \<open>
  \<^verbatim>\<open>if hasattr(stats, key): setattr(stats, key, value)\<close>. A key that names a field sets
  that field. A key that can name another attribute is left to \<open>Unmodelled\<close>. For any
  other key \<^verbatim>\<open>hasattr\<close> is false and the item is skipped.
\<close>

definition set_attr :: "string \<Rightarrow> pyval \<Rightarrow> PlayerStats \<Rightarrow> error + PlayerStats" where
  "set_attr key v st =
     (if key = ''hands'' then and_then (as_int v) (\<lambda>x. Inr (st\<lparr>hands := x\<rparr>))
      else if key = ''vpip'' then and_then (as_float v) (\<lambda>x. Inr (st\<lparr>vpip := x\<rparr>))
      else if key = ''pfr'' then and_then (as_float v) (\<lambda>x. Inr (st\<lparr>pfr := x\<rparr>))
      else if key = ''three_bet'' then and_then (as_float v) (\<lambda>x. Inr (st\<lparr>three_bet := x\<rparr>))
      else if key = ''fold_to_3bet'' then
        and_then (as_float v) (\<lambda>x. Inr (st\<lparr>fold_to_3bet := x\<rparr>))
      else if key = ''af'' then and_then (as_float v) (\<lambda>x. Inr (st\<lparr>af := x\<rparr>))
      else if key = ''wtsd'' then and_then (as_float v) (\<lambda>x. Inr (st\<lparr>wtsd := x\<rparr>))
      else if key = ''wssd'' then and_then (as_float v) (\<lambda>x. Inr (st\<lparr>wssd := x\<rparr>))
      else if key = ''cbet'' then and_then (as_float v) (\<lambda>x. Inr (st\<lparr>cbet := x\<rparr>))
      else if key = ''vpip_opportunities'' then
        and_then (as_int v) (\<lambda>x. Inr (st\<lparr>vpip_opportunities := x\<rparr>))
      else if key = ''vpip_count'' then and_then (as_int v) (\<lambda>x. Inr (st\<lparr>vpip_count := x\<rparr>))
      else if key = ''pfr_opportunities'' then
        and_then (as_int v) (\<lambda>x. Inr (st\<lparr>pfr_opportunities := x\<rparr>))
      else if key = ''pfr_count'' then and_then (as_int v) (\<lambda>x. Inr (st\<lparr>pfr_count := x\<rparr>))
      else if key = ''three_bet_opportunities'' then
        and_then (as_int v) (\<lambda>x. Inr (st\<lparr>three_bet_opportunities := x\<rparr>))
      else if key = ''three_bet_count'' then
        and_then (as_int v) (\<lambda>x. Inr (st\<lparr>three_bet_count := x\<rparr>))
      else if key = ''fold_to_3bet_opportunities'' then
        and_then (as_int v) (\<lambda>x. Inr (st\<lparr>fold_to_3bet_opportunities := x\<rparr>))
      else if key = ''fold_to_3bet_count'' then
        and_then (as_int v) (\<lambda>x. Inr (st\<lparr>fold_to_3bet_count := x\<rparr>))
      else if key = ''bets_raises'' then
        and_then (as_int v) (\<lambda>x. Inr (st\<lparr>bets_raises := x\<rparr>))
      else if key = ''calls'' then and_then (as_int v) (\<lambda>x. Inr (st\<lparr>calls := x\<rparr>))
      else if key = ''showdown_opportunities'' then
        and_then (as_int v) (\<lambda>x. Inr (st\<lparr>showdown_opportunities := x\<rparr>))
      else if key = ''showdown_count'' then
        and_then (as_int v) (\<lambda>x. Inr (st\<lparr>showdown_count := x\<rparr>))
      else if key = ''showdown_wins'' then
        and_then (as_int v) (\<lambda>x. Inr (st\<lparr>showdown_wins := x\<rparr>))
      else if key = ''cbet_opportunities'' then
        and_then (as_int v) (\<lambda>x. Inr (st\<lparr>cbet_opportunities := x\<rparr>))
      else if key = ''cbet_count'' then and_then (as_int v) (\<lambda>x. Inr (st\<lparr>cbet_count := x\<rparr>))
      else if key = ''stats_by_position'' then
        and_then (as_positions v) (\<lambda>x. Inr (st\<lparr>stats_by_position := x\<rparr>))
      else if other_attribute key then Inl Unmodelled
      else Inr st)"

fun set_items :: "pydict \<Rightarrow> PlayerStats \<Rightarrow> error + PlayerStats" where
  "set_items [] st = Inr st"
| "set_items ((key, v) # rest) st = and_then (set_attr key v st) (set_items rest)"

definition PlayerStats_from_dict :: "pydict \<Rightarrow> error + PlayerStats" where
  "PlayerStats_from_dict data = set_items data default_PlayerStats"

subsection \<open>Hand records\<close>

text \<open>
  \<^verbatim>\<open>HandRecord.to_dict\<close> writes all sixteen fields, the timestamp as its ISO text.
  \<^verbatim>\<open>datetime.isoformat\<close> is the parameter \<open>isoformat\<close>.
\<close>

definition HandRecord_to_dict :: "('t \<Rightarrow> string) \<Rightarrow> 't HandRecord \<Rightarrow> pydict" where
  "HandRecord_to_dict isoformat self =
     [(''hand_id'', PStr (hand_id self)),
      (''session_id'', of_opt_str (session_id self)),
      (''timestamp'', PStr (isoformat (timestamp self))),
      (''hero_cards'', PStrList (hero_cards self)),
      (''board'', PStrList (board self)),
      (''players'', PStrList (players self)),
      (''hero_position'', of_opt_str (hero_position self)),
      (''small_blind'', PFloat (small_blind self)),
      (''big_blind'', PFloat (big_blind self)),
      (''actions'', PActions (actions self)),
      (''result_bb'', PFloat (result_bb self)),
      (''winner'', of_opt_str (winner self)),
      (''went_to_showdown'', PBool (went_to_showdown self)),
      (''ai_action'', of_opt_str (ai_action self)),
      (''ai_reasoning'', of_opt_str (ai_reasoning self)),
      (''ai_confidence'', of_opt_float (ai_confidence self))]"

text \<open>
  \<^verbatim>\<open>datetime.fromisoformat(data["timestamp"]) if data.get("timestamp") else datetime.now()\<close>:
  a missing key, \<^verbatim>\<open>None\<close> and the empty string are false and give the current time.
  \<^verbatim>\<open>datetime.fromisoformat\<close> is the parameter \<open>fromisoformat\<close>, with \<open>None\<close> for a string
  it rejects.
\<close>

definition read_timestamp :: "(string \<Rightarrow> 't option) \<Rightarrow> 't \<Rightarrow> pydict \<Rightarrow> error + 't" where
  "read_timestamp fromisoformat now data =
     (case map_of data ''timestamp'' of
        None \<Rightarrow> Inr now
      | Some PNone \<Rightarrow> Inr now
      | Some (PStr s) \<Rightarrow>
          if s = [] then Inr now
          else (case fromisoformat s of None \<Rightarrow> Inl ValueError | Some t \<Rightarrow> Inr t)
      | Some _ \<Rightarrow> Inl Unmodelled)"

text \<open>
  \<^verbatim>\<open>HandRecord.from_dict\<close>: every field is read with \<^verbatim>\<open>data.get\<close> and the default of the
  source; the default of \<^verbatim>\<open>hand_id\<close> is a fresh uuid prefix, an input of the model.
\<close>

definition HandRecord_from_dict ::
  "(string \<Rightarrow> 't option) \<Rightarrow> string \<Rightarrow> 't \<Rightarrow> pydict \<Rightarrow> error + 't HandRecord" where
  "HandRecord_from_dict fromisoformat fresh_id now data =
     and_then (get_or data ''hand_id'' as_str fresh_id) (\<lambda>v_hand_id.
     and_then (get_or data ''session_id'' as_opt_str None) (\<lambda>v_session_id.
     and_then (read_timestamp fromisoformat now data) (\<lambda>v_timestamp.
     and_then (get_or data ''hero_cards'' as_str_list []) (\<lambda>v_hero_cards.
     and_then (get_or data ''board'' as_str_list []) (\<lambda>v_board.
     and_then (get_or data ''players'' as_str_list []) (\<lambda>v_players.
     and_then (get_or data ''hero_position'' as_opt_str None) (\<lambda>v_hero_position.
     and_then (get_or data ''small_blind'' as_float 0) (\<lambda>v_small_blind.
     and_then (get_or data ''big_blind'' as_float 0) (\<lambda>v_big_blind.
     and_then (get_or data ''actions'' as_actions []) (\<lambda>v_actions.
     and_then (get_or data ''result_bb'' as_float 0) (\<lambda>v_result_bb.
     and_then (get_or data ''winner'' as_opt_str None) (\<lambda>v_winner.
     and_then (get_or data ''went_to_showdown'' as_bool False) (\<lambda>v_went_to_showdown.
     and_then (get_or data ''ai_action'' as_opt_str None) (\<lambda>v_ai_action.
     and_then (get_or data ''ai_reasoning'' as_opt_str None) (\<lambda>v_ai_reasoning.
     and_then (get_or data ''ai_confidence'' as_opt_float None) (\<lambda>v_ai_confidence.
       Inr \<lparr> hand_id = v_hand_id, session_id = v_session_id, timestamp = v_timestamp,
             hero_cards = v_hero_cards, board = v_board, players = v_players,
             hero_position = v_hero_position, small_blind = v_small_blind,
             big_blind = v_big_blind, actions = v_actions, result_bb = v_result_bb,
             winner = v_winner, went_to_showdown = v_went_to_showdown,
             ai_action = v_ai_action, ai_reasoning = v_ai_reasoning,
             ai_confidence = v_ai_confidence \<rparr>))))))))))))))))"

text \<open>The nine fields that \<^verbatim>\<open>PlayerStats.to_dict\<close> writes, on top of the defaults.\<close>

definition written_fields :: "PlayerStats \<Rightarrow> PlayerStats" where
  "written_fields s =
     default_PlayerStats
       \<lparr> hands := hands s, vpip := vpip s, pfr := pfr s, three_bet := three_bet s,
         fold_to_3bet := fold_to_3bet s, af := af s, wtsd := wtsd s, wssd := wssd s,
         cbet := cbet s \<rparr>"

section \<open>Example inputs\<close>

definition example_player :: "int \<Rightarrow> real \<Rightarrow> real \<Rightarrow> unit Player" where
  "example_player n v a =
     \<lparr> name = ''Villain'', seat = 0, stack = 0, is_hero = False, position = None,
       stats = default_PlayerStats\<lparr>hands := n, vpip := v, af := a\<rparr>,
       last_updated = None, player_notes = [] \<rparr>"

text \<open>An action as the tests write it: player, action type and street, no other key.\<close>

definition mk_action :: "string \<Rightarrow> string \<Rightarrow> string \<Rightarrow> action" where
  "mk_action who what strt =
     \<lparr> player = Some who, action_type = Some what, amount = None,
       street = Some strt, action_timestamp = None \<rparr>"

text \<open>\<^verbatim>\<open>HandRecord(players=ps, actions=acts)\<close>\<close>

definition mk_hand :: "string list \<Rightarrow> action list \<Rightarrow> unit HandRecord" where
  "mk_hand ps acts = (new_HandRecord ''0a1b2c3d'' () None)\<lparr>players := ps, actions := acts\<rparr>"

definition hand_call :: "unit HandRecord" where
  "hand_call = mk_hand [''Hero'', ''Villain''] [mk_action ''Hero'' ''call'' ''preflop'']"

definition hand_fold :: "unit HandRecord" where
  "hand_fold = mk_hand [''Hero'', ''Villain''] [mk_action ''Hero'' ''fold'' ''preflop'']"

definition hand_raise :: "unit HandRecord" where
  "hand_raise = mk_hand [''Hero'', ''Villain''] [mk_action ''Hero'' ''raise'' ''preflop'']"

definition hand_check_then_call :: "unit HandRecord" where
  "hand_check_then_call =
     mk_hand [''Hero'', ''Villain'']
       [mk_action ''Hero'' ''check'' ''preflop'',
        mk_action ''Villain'' ''raise'' ''preflop'',
        mk_action ''Hero'' ''call'' ''preflop'']"

definition hand_reraise :: "unit HandRecord" where
  "hand_reraise =
     mk_hand [''Hero'', ''Villain'']
       [mk_action ''Villain'' ''raise'' ''preflop'',
        mk_action ''Hero'' ''raise'' ''preflop'']"

definition hand_call_raise :: "unit HandRecord" where
  "hand_call_raise =
     mk_hand [''Hero'', ''Villain'']
       [mk_action ''Villain'' ''raise'' ''preflop'',
        mk_action ''Hero'' ''call'' ''preflop'']"

definition hand_limp_reraise :: "unit HandRecord" where
  "hand_limp_reraise =
     mk_hand [''Hero'', ''Villain'']
       [mk_action ''Hero'' ''call'' ''preflop'',
        mk_action ''Villain'' ''raise'' ''preflop'',
        mk_action ''Hero'' ''raise'' ''preflop'']"

definition hand_fold_to_reraise :: "unit HandRecord" where
  "hand_fold_to_reraise =
     mk_hand [''Hero'', ''Villain'']
       [mk_action ''Hero'' ''raise'' ''preflop'',
        mk_action ''Villain'' ''raise'' ''preflop'',
        mk_action ''Hero'' ''fold'' ''preflop'']"

definition hand_call_reraise :: "unit HandRecord" where
  "hand_call_reraise =
     mk_hand [''Hero'', ''Villain'']
       [mk_action ''Hero'' ''raise'' ''preflop'',
        mk_action ''Villain'' ''raise'' ''preflop'',
        mk_action ''Hero'' ''call'' ''preflop'']"

definition hand_fold_to_four_bet :: "unit HandRecord" where
  "hand_fold_to_four_bet =
     mk_hand [''Hero'', ''Villain'']
       [mk_action ''Villain'' ''raise'' ''preflop'',
        mk_action ''Hero'' ''raise'' ''preflop'',
        mk_action ''Villain'' ''raise'' ''preflop'',
        mk_action ''Hero'' ''fold'' ''preflop'']"

definition hand_raise_then_bet :: "unit HandRecord" where
  "hand_raise_then_bet =
     mk_hand [''Hero'', ''Villain'']
       [mk_action ''Hero'' ''raise'' ''preflop'',
        mk_action ''Villain'' ''call'' ''preflop'',
        mk_action ''Hero'' ''bet'' ''flop'']"



definition three_aggressive_actions :: "action list" where
  "three_aggressive_actions =
     [mk_action ''Hero'' ''raise'' ''preflop'',
      mk_action ''Hero'' ''bet'' ''flop'',
      mk_action ''Hero'' ''bet'' ''turn'']"

definition hand_aggressive :: "unit HandRecord" where
  "hand_aggressive = mk_hand [''Hero'', ''Villain''] three_aggressive_actions"

definition hand_aggressive_unlisted :: "unit HandRecord" where
  "hand_aggressive_unlisted = mk_hand [] three_aggressive_actions"

text \<open>The inputs of the \<open>n\<close>-th hand of a session, which wins \<open>n\<close> big blinds.\<close>

definition example_pair :: "nat \<Rightarrow> unit hand_pair" where
  "example_pair n = ((''hand'', (), Some ''session''), (real n, None))"

text \<open>
  A clock with a single instant, for running the serialization: its ISO text and the
  reader of that text.
\<close>

definition unit_isoformat :: "unit \<Rightarrow> string" where
  "unit_isoformat t = ''2024-01-01T00:00:00''"

definition unit_fromisoformat :: "string \<Rightarrow> unit option" where
  "unit_fromisoformat s = (if s = ''2024-01-01T00:00:00'' then Some () else None)"

section \<open>What the scans count\<close>

lemma preflop_run_simps [simp]:
  "preflop_run [] = []"
  "preflop_run (a # acts) = (if street a = Some ''preflop'' then a # preflop_run acts else [])"
  by (simp_all add: preflop_run_def)

subsection \<open>VPIP and PFR\<close>

lemma vpip_scan_eq:
  "vpip_scan p acts n = n + (if \<exists>a \<in> set acts. voluntary_preflop_action p a then 1 else 0)"
  by (induction acts) (auto simp: voluntary_preflop_action_def)

lemma vpip_loop_eq:
  "vpip_loop p hs (opp, n) = (opp + length hs, n + length (filter (vpip_occurrence p) hs))"
  by (induction hs arbitrary: opp n) (simp_all add: vpip_scan_eq vpip_occurrence_def)

lemma calculate_vpip_eq:
  "calculate_vpip p hs = percent (length (filter (vpip_occurrence p) hs)) (length hs)"
  by (simp add: calculate_vpip_def vpip_loop_eq percent_def)

lemma pfr_scan_eq:
  "pfr_scan p acts n = n + (if \<exists>a \<in> set acts. preflop_raise_action p a then 1 else 0)"
  by (induction acts) (auto simp: preflop_raise_action_def is_raise_def)

lemma pfr_loop_eq:
  "pfr_loop p hs (opp, n) = (opp + length hs, n + length (filter (pfr_occurrence p) hs))"
  by (induction hs arbitrary: opp n) (simp_all add: pfr_scan_eq pfr_occurrence_def)

lemma calculate_pfr_eq:
  "calculate_pfr p hs = percent (length (filter (pfr_occurrence p) hs)) (length hs)"
  by (simp add: calculate_pfr_def pfr_loop_eq percent_def)

lemma pfr_occurrences_le_vpip_occurrences:
  "length (filter (pfr_occurrence p) hs) \<le> length (filter (vpip_occurrence p) hs)"
  by (induction hs)
     (auto simp: pfr_occurrence_def vpip_occurrence_def preflop_raise_action_def
        voluntary_preflop_action_def is_raise_def)

subsection \<open>3-bet\<close>

text \<open>Once the player has acted, the rest of the hand changes no counter.\<close>

lemma three_bet_scan_acted:
  "three_bet_scan p acts rs True oc = oc"
  by (induction acts arbitrary: rs oc) (auto split: prod.splits)

lemma three_bet_scan_eq:
  "three_bet_scan p acts rs False (opp, cnt) =
     (let run = preflop_run acts;
          seen = (rs \<or> (\<exists>a \<in> set (before_first_action_of p run). is_raise a))
      in case first_action_of p run of
           None \<Rightarrow> (opp, cnt)
         | Some a \<Rightarrow>
             (if seen then opp + 1 else opp, if seen \<and> is_raise a then cnt + 1 else cnt))"
proof (induction acts arbitrary: rs opp cnt)
  case Nil
  show ?case by (simp add: first_action_of_def)
next
  case (Cons a acts)
  show ?case
    by (auto simp add: Cons.IH three_bet_scan_acted first_action_of_def
        before_first_action_of_def is_raise_def Let_def split: option.splits)
qed

lemma three_bet_scan_hand:
  "three_bet_scan p (actions h) False False (opp, cnt) =
     (if three_bet_opportunity p h then opp + 1 else opp,
      if three_bet_occurrence p h then cnt + 1 else cnt)"
  by (simp add: three_bet_scan_eq three_bet_opportunity_def three_bet_occurrence_def Let_def
      split: option.splits)

lemma three_bet_loop_eq:
  "three_bet_loop p hs (opp, cnt) =
     (opp + length (filter (three_bet_opportunity p) hs),
      cnt + length (filter (three_bet_occurrence p) hs))"
  by (induction hs arbitrary: opp cnt) (simp_all add: three_bet_scan_hand)

lemma calculate_3bet_eq:
  "calculate_3bet p hs =
     percent (length (filter (three_bet_occurrence p) hs))
       (length (filter (three_bet_opportunity p) hs))"
  by (simp add: calculate_3bet_def three_bet_loop_eq percent_def)

subsection \<open>Fold to 3-bet\<close>

text \<open>One lemma for each state of the two flags, the last state of the scan first.\<close>

lemma fold_scan_faced:
  "fold_to_3bet_scan p acts True True (opp, cnt) =
     (case first_action_of p (preflop_run acts) of
        None \<Rightarrow> (opp, cnt)
      | Some a \<Rightarrow> (opp + 1, if action_type_lower a = ''fold'' then cnt + 1 else cnt))"
  by (induction acts arbitrary: opp cnt) (auto simp: first_action_of_def)

lemma fold_scan_raised:
  "fold_to_3bet_scan p acts True False (opp, cnt) =
     (case first_action_of p (after_other_raise p (preflop_run acts)) of
        None \<Rightarrow> (opp, cnt)
      | Some a \<Rightarrow> (opp + 1, if action_type_lower a = ''fold'' then cnt + 1 else cnt))"
  by (induction acts arbitrary: opp cnt)
     (auto simp: fold_scan_faced after_other_raise_def is_raise_def first_action_of_def)

lemma fold_scan_start:
  "fold_to_3bet_scan p acts False False (opp, cnt) =
     (case first_action_of p (after_other_raise p (after_own_raise p (preflop_run acts))) of
        None \<Rightarrow> (opp, cnt)
      | Some a \<Rightarrow> (opp + 1, if action_type_lower a = ''fold'' then cnt + 1 else cnt))"
  by (induction acts arbitrary: opp cnt)
     (auto simp: fold_scan_raised after_own_raise_def after_other_raise_def is_raise_def
        first_action_of_def)

lemma fold_scan_hand:
  "fold_to_3bet_scan p (actions h) False False (opp, cnt) =
     (if fold_to_3bet_opportunity p h then opp + 1 else opp,
      if fold_to_3bet_occurrence p h then cnt + 1 else cnt)"
  by (simp add: fold_scan_start fold_to_3bet_opportunity_def fold_to_3bet_occurrence_def
      facing_action_def split: option.splits)

lemma fold_to_3bet_loop_eq:
  "fold_to_3bet_loop p hs (opp, cnt) =
     (opp + length (filter (fold_to_3bet_opportunity p) hs),
      cnt + length (filter (fold_to_3bet_occurrence p) hs))"
  by (induction hs arbitrary: opp cnt) (simp_all add: fold_scan_hand)

lemma calculate_fold_to_3bet_eq:
  "calculate_fold_to_3bet p hs =
     percent (length (filter (fold_to_3bet_occurrence p) hs))
       (length (filter (fold_to_3bet_opportunity p) hs))"
  by (simp add: calculate_fold_to_3bet_def fold_to_3bet_loop_eq percent_def)

subsection \<open>Continuation bet\<close>








subsection \<open>Aggression factor\<close>

lemma af_scan_eq:
  "af_scan p acts (b, c) =
     (b + length (filter (\<lambda>a. player a = Some p \<and> is_bet_or_raise a) acts),
      c + length (filter (\<lambda>a. player a = Some p \<and> is_call a) acts))"
  by (induction acts arbitrary: b c) (auto simp: is_bet_or_raise_def is_call_def)

lemma af_loop_eq:
  "af_loop p hs (b, c) =
     (b + count_actions is_bet_or_raise p hs, c + count_actions is_call p hs)"
  by (induction hs arbitrary: b c) (simp_all add: af_scan_eq count_actions_def)

lemma calculate_af_eq:
  "calculate_af p hs =
     aggression_ratio (count_actions is_bet_or_raise p hs) (count_actions is_call p hs)"
  by (simp add: calculate_af_def af_loop_eq aggression_ratio_def)

subsection \<open>The fields of the snapshot\<close>

text \<open>
  Each field of the result is the method's value on the hands that list the player; with
  no such hand the loops run over the empty list and give the default zero.
\<close>

lemma stats_vpip:
  "vpip (calculate_stats p hs) = calculate_vpip p (involving p hs)"
  by (simp add: calculate_stats_def Let_def default_PlayerStats_def involving_def
      calculate_vpip_def)

lemma stats_pfr:
  "pfr (calculate_stats p hs) = calculate_pfr p (involving p hs)"
  by (simp add: calculate_stats_def Let_def default_PlayerStats_def involving_def
      calculate_pfr_def)

lemma stats_three_bet:
  "three_bet (calculate_stats p hs) = calculate_3bet p (involving p hs)"
  by (simp add: calculate_stats_def Let_def default_PlayerStats_def involving_def
      calculate_3bet_def)

lemma stats_fold_to_3bet:
  "fold_to_3bet (calculate_stats p hs) = calculate_fold_to_3bet p (involving p hs)"
  by (simp add: calculate_stats_def Let_def default_PlayerStats_def involving_def
      calculate_fold_to_3bet_def)


lemma stats_af:
  "af (calculate_stats p hs) = calculate_af p (involving p hs)"
  by (simp add: calculate_stats_def Let_def default_PlayerStats_def involving_def
      calculate_af_def)

text \<open>Evaluating the examples.\<close>

lemmas example_defs =
  mk_hand_def mk_action_def new_HandRecord_def involving_def percent_def
  street_or_preflop_def action_type_lower_def lower_def lower_char_def
  is_raise_def is_bet_or_raise_def is_call_def first_action_of_def before_first_action_of_def
  after_own_raise_def after_other_raise_def

section \<open>The capacity of the store\<close>

text \<open>With a capacity of at least one, the slice that trims the list keeps its last entries.\<close>

lemma py_slice_from_capacity:
  assumes "1 \<le> m"
  shows "py_slice_from (- m) xs = drop (length xs - nat m) xs"
proof -
  have "nat (max 0 (int (length xs) + (- m))) = length xs - nat m"
    using assms by arith
  with assms show ?thesis by (simp add: py_slice_from_def)
qed

lemma end_hand_open:
  assumes "1 \<le> hh_max_hands self" and "hh_current_hand self = Some cur"
  shows "end_hand res win self =
           self\<lparr>hh_hands :=
                   drop (Suc (length (hh_hands self)) - nat (hh_max_hands self))
                     (hh_hands self @ [cur\<lparr>result_bb := res, winner := win\<rparr>]),
                hh_current_hand := None\<rparr>"
  using assms by (auto simp add: end_hand_def Let_def py_slice_from_capacity)

lemma drop_snoc_window:
  assumes "1 \<le> m"
  shows "drop (Suc (length (drop (length xs - m) xs)) - m) (drop (length xs - m) xs @ [y])
           = drop (length (xs @ [y]) - m) (xs @ [y])"
proof (cases "length xs \<le> m")
  case True
  then show ?thesis by simp
next
  case False
  then have "length (drop (length xs - m) xs) = m" by simp
  with False assms show ?thesis by (simp add: Suc_diff_le)
qed

lemma apply_op_max [simp]: "hh_max_hands (apply_op operation self) = hh_max_hands self"
  by (cases operation) (simp_all add: start_new_hand_def end_hand_def Let_def split: option.splits)

lemma run_ops_max [simp]: "hh_max_hands (run_ops ops self) = hh_max_hands self"
  by (induction ops arbitrary: self) simp_all

lemma run_ops_append: "run_ops (xs @ ys) self = run_ops ys (run_ops xs self)"
  by (induction xs arbitrary: self) simp_all

lemma apply_op_bounded:
  assumes "1 \<le> hh_max_hands self" and "int (length (hh_hands self)) \<le> hh_max_hands self"
  shows "int (length (hh_hands (apply_op operation self))) \<le> hh_max_hands self"
proof (cases operation)
  case (StartNewHand fresh_id now sid)
  with assms show ?thesis by (simp add: start_new_hand_def)
next
  case (EndHand res win)
  show ?thesis
  proof (cases "hh_current_hand self")
    case None
    with EndHand assms show ?thesis by (simp add: end_hand_def)
  next
    case (Some cur)
    with EndHand assms show ?thesis by (simp add: end_hand_open)
  qed
qed

lemma run_ops_bounded:
  assumes "1 \<le> hh_max_hands self" and "int (length (hh_hands self)) \<le> hh_max_hands self"
  shows "int (length (hh_hands (run_ops ops self))) \<le> hh_max_hands self"
  using assms
proof (induction ops arbitrary: self)
  case Nil
  then show ?case by simp
next
  case (Cons operation ops)
  from Cons.prems have "int (length (hh_hands (apply_op operation self))) \<le> hh_max_hands self"
    by (rule apply_op_bounded)
  with Cons.prems Cons.IH [of "apply_op operation self"] show ?case by simp
qed

lemma run_pair:
  assumes "1 \<le> hh_max_hands self"
  shows "hh_hands (run_ops (pair_ops x) self) =
           drop (Suc (length (hh_hands self)) - nat (hh_max_hands self))
             (hh_hands self @ [finalized x])"
  using assms
  by (cases x rule: pair_ops.cases) (simp add: start_new_hand_def end_hand_open)

lemma run_pairs_window:
  assumes "1 \<le> m"
  shows "hh_hands (run_ops (ops_of_pairs ps) (init_HandHistory m)) =
           drop (length ps - nat m) (map finalized ps)"
proof (induction ps rule: rev_induct)
  case Nil
  show ?case by (simp add: ops_of_pairs_def init_HandHistory_def)
next
  case (snoc x ps)
  let ?s = "run_ops (ops_of_pairs ps) (init_HandHistory m :: 'a HandHistory)"
  have max: "hh_max_hands ?s = m" by (simp add: init_HandHistory_def)
  have "run_ops (ops_of_pairs (ps @ [x])) (init_HandHistory m) = run_ops (pair_ops x) ?s"
    by (simp add: ops_of_pairs_def run_ops_append)
  moreover have "hh_hands (run_ops (pair_ops x) ?s) =
      drop (Suc (length (hh_hands ?s)) - nat (hh_max_hands ?s)) (hh_hands ?s @ [finalized x])"
    by (rule run_pair) (simp add: init_HandHistory_def assms)
  ultimately have "hh_hands (run_ops (ops_of_pairs (ps @ [x])) (init_HandHistory m)) =
      drop (Suc (length (hh_hands ?s)) - nat m) (hh_hands ?s @ [finalized x])"
    by (simp only: max)
  also have "\<dots> = drop (length (map finalized ps @ [finalized x]) - nat m)
                    (map finalized ps @ [finalized x])"
    unfolding snoc.IH
    using drop_snoc_window [of "nat m" "map finalized ps" "finalized x"] assms by simp
  finally show ?case by simp
qed

section \<open>Writing and reading back\<close>

lemma PlayerStats_round_trip:
  "PlayerStats_from_dict (PlayerStats_to_dict s) = Inr (written_fields s)"
  by (simp add: PlayerStats_from_dict_def PlayerStats_to_dict_def set_attr_def
      written_fields_def default_PlayerStats_def)

lemma opt_str_round_trip [simp]: "as_opt_str (of_opt_str x) = Inr x"
  by (cases x) simp_all

lemma opt_float_round_trip [simp]: "as_opt_float (of_opt_float x) = Inr x"
  by (cases x) simp_all

lemma HandRecord_round_trip:
  assumes "\<And>t. fromisoformat (isoformat t) = Some t" and "\<And>t. isoformat t \<noteq> []"
  shows "HandRecord_from_dict fromisoformat fresh_id now (HandRecord_to_dict isoformat h) = Inr h"
  using assms
  by (simp add: HandRecord_from_dict_def HandRecord_to_dict_def get_or_def read_timestamp_def)

section \<open>Ending a hand when none is open\<close>

text \<open>
  C7. In a store with no open hand, \<^verbatim>\<open>end_hand\<close> does nothing: the model has no error
  value for it to return (the method has no raise on this path), and the store it returns
  is the store it was given, so the closed hands and the open slot are unchanged.
\<close>

theorem end_hand_no_open_hand:
  "hh_current_hand self = None \<Longrightarrow> end_hand res win self = self"
  by (simp add: end_hand_def)

theorem end_hand_no_open_hand_witness:
  "hh_current_hand (init_HandHistory 1000 :: unit HandHistory) = None
   \<and> end_hand 5 (Some ''Hero'') (init_HandHistory 1000 :: unit HandHistory)
       = init_HandHistory 1000"
  using end_hand_no_open_hand [of "init_HandHistory 1000 :: unit HandHistory" 5 "Some ''Hero''"]
  by (simp add: init_HandHistory_def)

section \<open>Classifying a player\<close>

text \<open>
  C8. With fewer than 20 hands the four predicates are false and the type is
  \<^verbatim>\<open>Unknown\<close>. From 20 hands on, tight is VPIP below 20, loose is VPIP above 35,
  aggressive is AF above 2.5 and passive is AF below 1.5, while the player type uses the
  coarser pair VPIP below 25 and AF above 2.0 for its four quadrants.
\<close>

theorem player_classification:
  "(hands (stats self) < 20 \<longrightarrow>
      \<not> is_tight self \<and> \<not> is_loose self \<and> \<not> is_aggressive self \<and> \<not> is_passive self
      \<and> get_player_type self = ''Unknown'')
   \<and> (hands (stats self) \<ge> 20 \<longrightarrow>
      (is_tight self \<longleftrightarrow> vpip (stats self) < 20)
      \<and> (is_loose self \<longleftrightarrow> vpip (stats self) > 35)
      \<and> (is_aggressive self \<longleftrightarrow> af (stats self) > 2.5)
      \<and> (is_passive self \<longleftrightarrow> af (stats self) < 1.5)
      \<and> get_player_type self =
          (if vpip (stats self) < 25
           then (if af (stats self) > 2.0 then ''TAG (Tight Aggressive)''
                 else ''TP (Tight Passive)'')
           else (if af (stats self) > 2.0 then ''LAG (Loose Aggressive)''
                 else ''LP (Loose Passive)'')))"
  by (simp add: is_tight_def is_loose_def is_aggressive_def is_passive_def
      get_player_type_def Let_def)

theorem player_classification_witness:
  "hands (stats (example_player 5 10 3)) < 20
   \<and> \<not> is_tight (example_player 5 10 3) \<and> \<not> is_aggressive (example_player 5 10 3)
   \<and> get_player_type (example_player 5 10 3) = ''Unknown''
   \<and> hands (stats (example_player 50 22 2.2)) \<ge> 20
   \<and> \<not> is_tight (example_player 50 22 2.2) \<and> \<not> is_aggressive (example_player 50 22 2.2)
   \<and> get_player_type (example_player 50 22 2.2) = ''TAG (Tight Aggressive)''"
  using player_classification [of "example_player 5 10 3"]
    player_classification [of "example_player 50 22 2.2"]
  by (simp add: example_player_def default_PlayerStats_def)

section \<open>VPIP\<close>

text \<open>
  C1, as amended. Among the hands that list the player, VPIP is 100 times the number of
  hands in which some preflop action of the player (an action without a street counts as
  preflop) is a call, a bet or a raise, divided by the number of those hands, and zero
  when there is no such hand. The scan does not stop at the player's first preflop
  action: it goes on until it meets a call, a bet or a raise.
\<close>

theorem vpip_counts_any_voluntary_preflop_action:
  "vpip (calculate_stats p hs) =
     percent (length (filter (vpip_occurrence p) (involving p hs))) (length (involving p hs))"
  by (simp add: stats_vpip calculate_vpip_eq)

text \<open>Scenario 1 of the specification: a call in one hand, a fold in the other.\<close>

theorem vpip_counts_any_voluntary_preflop_action_witness:
  "vpip (calculate_stats ''Hero'' [hand_call, hand_fold]) = 50"
  using vpip_counts_any_voluntary_preflop_action [of "''Hero''" "[hand_call, hand_fold]"]
  by (simp add: hand_call_def hand_fold_def vpip_occurrence_def voluntary_preflop_action_def
      example_defs)

text \<open>
  C1 as stated fails on a hand in which the player checks, is raised and calls: the first
  preflop action is a check, so the claim counts no occurrence, and the code counts one.
\<close>

theorem vpip_first_action_counterexample:
  "vpip (calculate_stats ''Hero'' [hand_check_then_call]) = 100
   \<and> claimed_vpip ''Hero'' [hand_check_then_call] = 0"
  by (simp add: calculate_stats_def calculate_vpip_def claimed_vpip_def
      claimed_vpip_occurrence_def hand_check_then_call_def default_PlayerStats_def Let_def
      example_defs)

section \<open>PFR and VPIP\<close>

text \<open>
  C10. The preflop-raise percentage of a player never exceeds the VPIP: both divide by the
  number of hands that list the player, and a hand with a preflop raise of the player is a
  hand with a voluntary preflop action of the player.
\<close>

theorem pfr_le_vpip:
  "pfr (calculate_stats p hs) \<le> vpip (calculate_stats p hs)"
  unfolding stats_vpip stats_pfr calculate_vpip_eq calculate_pfr_eq percent_def
  using pfr_occurrences_le_vpip_occurrences [of p "involving p hs"]
  by (simp add: divide_right_mono)

theorem pfr_le_vpip_witness:
  "pfr (calculate_stats ''Hero'' [hand_raise, hand_call, hand_fold]) = 100 / 3
   \<and> vpip (calculate_stats ''Hero'' [hand_raise, hand_call, hand_fold]) = 200 / 3
   \<and> pfr (calculate_stats ''Hero'' [hand_raise, hand_call, hand_fold])
       \<le> vpip (calculate_stats ''Hero'' [hand_raise, hand_call, hand_fold])"
  using pfr_le_vpip [of "''Hero''" "[hand_raise, hand_call, hand_fold]"]
  by (simp add: calculate_stats_def calculate_vpip_def calculate_pfr_def hand_raise_def
      hand_call_def hand_fold_def default_PlayerStats_def Let_def example_defs)

section \<open>3-bet\<close>

text \<open>
  C2, as amended. Among the hands that list the player, an opportunity is a hand in which,
  in the leading preflop actions, somebody else raised before the player's first action;
  an occurrence is an opportunity in which that first action is a raise; the value is
  100 times the occurrences over the opportunities, and zero without an opportunity.
  A player who has acted before the first raise of another player has no opportunity in
  that hand.
\<close>

theorem three_bet_counts_first_action:
  "three_bet (calculate_stats p hs) =
     percent (length (filter (three_bet_occurrence p) (involving p hs)))
       (length (filter (three_bet_opportunity p) (involving p hs)))"
  by (simp add: stats_three_bet calculate_3bet_eq)

theorem three_bet_counts_first_action_witness:
  "three_bet (calculate_stats ''Hero'' [hand_reraise, hand_call_raise, hand_raise]) = 50"
  using three_bet_counts_first_action
    [of "''Hero''" "[hand_reraise, hand_call_raise, hand_raise]"]
  by (simp add: hand_reraise_def hand_call_raise_def hand_raise_def
      three_bet_occurrence_def three_bet_opportunity_def example_defs)

text \<open>
  C2 as stated fails on a hand in which the player calls, is raised and raises back: a
  raise of another player comes before the player's next action, which is a raise, so the
  claim counts an opportunity and an occurrence; the code counts neither, because the
  player had already acted.
\<close>

theorem three_bet_limp_reraise_counterexample:
  "three_bet (calculate_stats ''Hero'' [hand_limp_reraise]) = 0
   \<and> claimed_3bet ''Hero'' [hand_limp_reraise] = 100"
  by (simp add: calculate_stats_def calculate_3bet_def claimed_3bet_def
      claimed_3bet_action_def hand_limp_reraise_def default_PlayerStats_def Let_def
      example_defs)

section \<open>Fold to 3-bet\<close>

text \<open>
  C3. The scan takes the player's first raise for the first raise of the hand: it never
  looks at the raises made before it. On a hand in which somebody else raises first, the
  player raises back, is raised again and folds, the player folds to a 4-bet, and did not
  make the first preflop raise; the statistic as the specification states it has no
  opportunity there and is 0, while \<^verbatim>\<open>_calculate_fold_to_3bet\<close> counts an opportunity and
  a fold and answers 100.
\<close>

theorem fold_to_3bet_counts_fold_to_four_bet:
  "fold_to_3bet (calculate_stats ''Hero'' [hand_fold_to_four_bet]) = 100
   \<and> claimed_fold_to_3bet ''Hero'' [hand_fold_to_four_bet] = 0"
  by (simp add: calculate_stats_def calculate_fold_to_3bet_def claimed_fold_to_3bet_def
      claimed_facing_action_def hand_fold_to_four_bet_def default_PlayerStats_def Let_def
      example_defs)

section \<open>Continuation bet\<close>




section \<open>Aggression factor\<close>

text \<open>
  C6, as amended. The aggression factor is the number of the player's bet and raise
  actions divided by the number of the player's call actions, on any street, both counted
  in the hands that list the player among their players; with no call it is the number of
  bets and raises itself (3 for three bets or raises), which is 0 when there is none.
  Hands that do not list the player are left out of both counts.
\<close>

theorem af_counts_listed_hands:
  "af (calculate_stats p hs) =
     aggression_ratio (count_actions is_bet_or_raise p (involving p hs))
       (count_actions is_call p (involving p hs))"
  by (simp add: stats_af calculate_af_eq)

text \<open>Scenario 3 of the specification, in a hand that lists the player.\<close>

theorem af_counts_listed_hands_witness:
  "af (calculate_stats ''Hero'' [hand_aggressive]) = 3"
  using af_counts_listed_hands [of "''Hero''" "[hand_aggressive]"]
  by (simp add: hand_aggressive_def three_aggressive_actions_def aggression_ratio_def
      count_actions_def example_defs)

text \<open>
  C6 as stated fails on a hand record with the same three actions and an empty list of
  players: the player has three bets or raises and no call, and the code gives 0.
\<close>

theorem af_unlisted_player_counterexample:
  "af (calculate_stats ''Hero'' [hand_aggressive_unlisted]) = 0
   \<and> claimed_af ''Hero'' [hand_aggressive_unlisted] = 3"
  by (simp add: calculate_stats_def claimed_af_def aggression_ratio_def count_actions_def
      hand_aggressive_unlisted_def three_aggressive_actions_def default_PlayerStats_def
      Let_def example_defs)

section \<open>The capacity law\<close>

text \<open>
  C5, as amended. For a store made with a capacity \<open>max_hands\<close> of at least one and a
  sequence of more than \<open>max_hands\<close> pairs of \<^verbatim>\<open>start_new_hand\<close> and \<^verbatim>\<open>end_hand\<close>, the
  closed hands after the last \<^verbatim>\<open>end_hand\<close> are the last \<open>max_hands\<close> finalized hands, in
  the order in which they were played, and after every operation of the sequence the list
  has at most \<open>max_hands\<close> entries.
\<close>

theorem store_keeps_most_recent:
  assumes "1 \<le> max_hands" and "int (length ps) > max_hands"
  shows "hh_hands (run_ops (ops_of_pairs ps) (init_HandHistory max_hands)) =
           drop (length ps - nat max_hands) (map finalized ps)
         \<and> int (length (hh_hands (run_ops (ops_of_pairs ps) (init_HandHistory max_hands))))
             = max_hands
         \<and> (\<forall>k. int (length (hh_hands (run_ops (take k (ops_of_pairs ps))
                                          (init_HandHistory max_hands)))) \<le> max_hands)"
proof (intro conjI allI)
  show win: "hh_hands (run_ops (ops_of_pairs ps) (init_HandHistory max_hands)) =
           drop (length ps - nat max_hands) (map finalized ps)"
    using assms(1) by (rule run_pairs_window)
  show "int (length (hh_hands (run_ops (ops_of_pairs ps) (init_HandHistory max_hands))))
             = max_hands"
    unfolding win using assms by simp
  show "int (length (hh_hands (run_ops (take k (ops_of_pairs ps))
                                          (init_HandHistory max_hands)))) \<le> max_hands" for k
    using run_ops_bounded [of "init_HandHistory max_hands" "take k (ops_of_pairs ps)"] assms(1)
    by (simp add: init_HandHistory_def)
qed

text \<open>Three hands into a store for two: the second and the third remain.\<close>

theorem store_keeps_most_recent_witness:
  "(1::int) \<le> 2 \<and> int (length [example_pair 1, example_pair 2, example_pair 3]) > 2
   \<and> hh_hands (run_ops (ops_of_pairs [example_pair 1, example_pair 2, example_pair 3])
        (init_HandHistory 2))
     = [finalized (example_pair 2), finalized (example_pair 3)]"
  using store_keeps_most_recent [of 2 "[example_pair 1, example_pair 2, example_pair 3]"]
  by simp

text \<open>
  C5 as stated fails for a capacity below one. With capacity 0 the slice
  \<^verbatim>\<open>self._hands[-0:]\<close> is the whole list, so the store keeps the hand and holds more than
  its capacity; with capacity -1 the list is emptied, and no list is shorter than -1.
\<close>

theorem store_capacity_counterexample:
  "hh_hands (run_ops (ops_of_pairs [example_pair 1]) (init_HandHistory 0))
     = [finalized (example_pair 1)]
   \<and> int (length (hh_hands (run_ops (ops_of_pairs [example_pair 1]) (init_HandHistory 0)))) > 0
   \<and> hh_hands (run_ops (ops_of_pairs [example_pair 1]) (init_HandHistory (- 1))) = []
   \<and> int (length (hh_hands (run_ops (ops_of_pairs [example_pair 1]) (init_HandHistory (- 1)))))
       > - 1"
  by (simp add: ops_of_pairs_def example_pair_def init_HandHistory_def start_new_hand_def
      end_hand_def py_slice_from_def Let_def)

section \<open>Round trips through the plain mappings\<close>

text \<open>
  C9, as amended. Reading back what \<^verbatim>\<open>PlayerStats.to_dict\<close> wrote gives the sample size
  and the eight statistics of the original on top of the default tracking counters and an
  empty per-position breakdown, so it gives the original exactly when its counters and
  breakdown are the defaults. Reading back what \<^verbatim>\<open>HandRecord.to_dict\<close> wrote gives the
  original hand record, every field of it, for a \<^verbatim>\<open>datetime\<close> whose ISO text is not
  empty and is read back to the same instant.
\<close>

theorem dict_round_trip:
  assumes "\<And>t. fromisoformat (isoformat t) = Some t" and "\<And>t. isoformat t \<noteq> []"
  shows "PlayerStats_from_dict (PlayerStats_to_dict s) = Inr (written_fields s)
         \<and> (s = written_fields s \<longrightarrow> PlayerStats_from_dict (PlayerStats_to_dict s) = Inr s)
         \<and> HandRecord_from_dict fromisoformat fresh_id now (HandRecord_to_dict isoformat h)
             = Inr h"
  using PlayerStats_round_trip [of s] HandRecord_round_trip [OF assms, of fresh_id now h]
  by simp

text \<open>The statistics computed from two hands, and a hand record with three actions.\<close>

theorem dict_round_trip_witness:
  "(\<forall>t. unit_fromisoformat (unit_isoformat t) = Some t) \<and> (\<forall>t. unit_isoformat t \<noteq> [])
   \<and> PlayerStats_from_dict (PlayerStats_to_dict (calculate_stats ''Hero'' [hand_call, hand_fold]))
       = Inr (calculate_stats ''Hero'' [hand_call, hand_fold])
   \<and> HandRecord_from_dict unit_fromisoformat ''ffffffff'' ()
        (HandRecord_to_dict unit_isoformat hand_raise_then_bet) = Inr hand_raise_then_bet"
proof -
  have a: "\<And>t. unit_fromisoformat (unit_isoformat t) = Some t"
    by (simp add: unit_fromisoformat_def unit_isoformat_def)
  have b: "\<And>t. unit_isoformat t \<noteq> []"
    by (simp add: unit_isoformat_def)
  have c: "calculate_stats ''Hero'' [hand_call, hand_fold]
            = written_fields (calculate_stats ''Hero'' [hand_call, hand_fold])"
    by (simp add: calculate_stats_def written_fields_def default_PlayerStats_def Let_def)
  show ?thesis
    using a b c
      dict_round_trip [of unit_fromisoformat unit_isoformat
        "calculate_stats ''Hero'' [hand_call, hand_fold]" "''ffffffff''" "()" hand_raise_then_bet,
        OF a b]
    by simp
qed

text \<open>
  C9 as stated fails for statistics with a tracking counter that is not zero: the
  counter is not written, and comes back as zero.
\<close>

theorem stats_round_trip_counterexample:
  "PlayerStats_from_dict (PlayerStats_to_dict (default_PlayerStats\<lparr>vpip_count := 1\<rparr>))
     \<noteq> Inr (default_PlayerStats\<lparr>vpip_count := 1\<rparr>)"
  by (simp add: PlayerStats_from_dict_def PlayerStats_to_dict_def set_attr_def
      default_PlayerStats_def)

end
